theory Spec2Isabelle
  imports Main
begin

section \<open>Rendering values the way Python's f-strings do\<close>

text \<open>
  The unit names compared in \<^verbatim>\<open>src/upgrade.py\<close> are built with f-strings such as
  \<^verbatim>\<open>f"{self.charm.app.name}/{self.charm.app.planned_units() - 1}"\<close>, so the decimal
  rendering of a Python \<^verbatim>\<open>int\<close> is part of the program.
\<close>

definition digit_char :: "nat \<Rightarrow> char" where
  "digit_char d = ''0123456789'' ! d"

fun str_nat :: "nat \<Rightarrow> string" where
  "str_nat n = (if n < 10 then [digit_char n] else str_nat (n div 10) @ [digit_char (n mod 10)])"

declare str_nat.simps [simp del]

definition str_int :: "int \<Rightarrow> string" where
  "str_int i = (if i < 0 then CHR ''-'' # str_nat (nat (- i)) else str_nat (nat i))"

text \<open>
  \<^verbatim>\<open>repr\<close> of a \<^verbatim>\<open>str\<close> and \<^verbatim>\<open>str\<close> of a list of them, as used by the diagnostic
  line \<^verbatim>\<open>f"sync_standby_names: {sync_standby_names}"\<close>. The rendering is the one Python
  gives for names without quote, backslash or control characters, which is what member
  names of the form \<^verbatim>\<open>app/N\<close> are.
\<close>

definition repr_str :: "string \<Rightarrow> string" where
  "repr_str s = CHR 0x27 # s @ [CHR 0x27]"

fun comma_join :: "string list \<Rightarrow> string" where
  "comma_join [] = []"
| "comma_join [x] = x"
| "comma_join (x # y # ys) = x @ '', '' @ comma_join (y # ys)"

definition str_list :: "string list \<Rightarrow> string" where
  "str_list xs = ''['' @ comma_join (map repr_str xs) @ '']''"

section \<open>The charm as seen by \<^verbatim>\<open>PostgreSQLUpgrade\<close>\<close>

text \<open>
  The levels the module logs at. \<^verbatim>\<open>logger.exception\<close> logs at level ERROR; the traceback
  it appends is not part of the message.
\<close>

datatype log_level = DEBUG | INFO | ERROR

text \<open>
  What a method of the module can raise: lightkube's \<^verbatim>\<open>ApiError\<close>, the upgrade library's
  \<^verbatim>\<open>ClusterNotReadyError(message, cause)\<close>, and the \<^verbatim>\<open>AttributeError\<close> of reading
  \<^verbatim>\<open>.data\<close> of a peer relation that is \<^verbatim>\<open>None\<close>.
\<close>

datatype error =
    ApiError
  | ClusterNotReadyError string string
  | AttributeError

text \<open>
  Everything a handler of \<^verbatim>\<open>PostgreSQLUpgrade\<close> reads or writes. The first block is what
  the handler only reads (the charm, the replication manager's answers, whether the
  orchestrator API answers, whether there is a peer relation); the second block, from
  \<open>rolling_update_partition\<close> on, is what it can change (the StatefulSet's rolling-update
  partition, the peer relation's data bags, the requests made to the replication manager
  and the configuration renderer, the event object and the log).

  \<^item> \<open>primary\<close> is the answer of \<^verbatim>\<open>self.charm._patroni.get_primary(unit_name_pattern=True)\<close>,
    \<open>sync_standby_names\<close> the answer of \<^verbatim>\<open>get_sync_standby_names()\<close>;
  \<^item> \<open>switchover_failure c\<close> is \<open>Some msg\<close> when \<^verbatim>\<open>switchover(c)\<close> raises
    \<^verbatim>\<open>SwitchoverFailedError\<close> whose \<^verbatim>\<open>str\<close> is \<open>msg\<close>, and \<open>None\<close> when it succeeds;
  \<^item> \<open>api_get_fails\<close> and \<open>api_patch_fails\<close> say whether lightkube's \<^verbatim>\<open>client.get\<close> and
    \<^verbatim>\<open>client.patch\<close> raise \<^verbatim>\<open>ApiError\<close>;
  \<^item> \<open>rolling_update_partition\<close> is the partition in the StatefulSet's spec, and
    \<open>patch_requests\<close> lists the partitions that \<^verbatim>\<open>client.patch\<close> has been called with,
    whether the call succeeded or raised;
  \<^item> \<open>has_peer_relation\<close> is the truth value of \<^verbatim>\<open>self.peer_relation\<close>; \<open>app_data\<close> and
    \<open>unit_data\<close> are \<^verbatim>\<open>self.peer_relation.data[self.charm.app]\<close> and
    \<^verbatim>\<open>self.peer_relation.data[self.charm.unit]\<close>;
  \<^item> \<open>deferred\<close> records \<^verbatim>\<open>event.defer()\<close>, \<open>action_results\<close> and \<open>action_failure\<close>
    record \<^verbatim>\<open>event.set_results\<close> and \<^verbatim>\<open>event.fail\<close> of an action event.
\<close>

record charm_state =
  app_name :: string
  unit_name :: string
  planned_units :: int
  is_cluster_initialised :: bool
  is_leader :: bool
  member_started :: bool
  primary :: string
  sync_standby_names :: "string list"
  switchover_failure :: "string option \<Rightarrow> string option"
  api_get_fails :: bool
  api_patch_fails :: bool
  has_peer_relation :: bool
  rolling_update_partition :: int
  patch_requests :: "int list"
  app_data :: "string \<rightharpoonup> string"
  unit_data :: "string \<rightharpoonup> string"
  switchovers :: "string option list"
  config_updates :: nat
  deferred :: bool
  action_results :: "(string \<rightharpoonup> string) option"
  action_failure :: "string option"
  log_records :: "(log_level \<times> string) list"

text \<open>A handler either returns (Python's \<^verbatim>\<open>None\<close>) or raises; both leave a state behind.\<close>

datatype outcome = Returned charm_state | Raised error charm_state

fun state_of :: "outcome \<Rightarrow> charm_state" where
  "state_of (Returned s) = s"
| "state_of (Raised e s) = s"

fun raised :: "outcome \<Rightarrow> error option" where
  "raised (Returned s) = None"
| "raised (Raised e s) = Some e"

definition logger :: "log_level \<Rightarrow> string \<Rightarrow> charm_state \<Rightarrow> charm_state" where
  "logger lvl msg s = s\<lparr>log_records := log_records s @ [(lvl, msg)]\<rparr>"

definition event_defer :: "charm_state \<Rightarrow> charm_state" where
  "event_defer s = s\<lparr>deferred := True\<rparr>"

definition event_set_results :: "(string \<rightharpoonup> string) \<Rightarrow> charm_state \<Rightarrow> charm_state" where
  "event_set_results r s = s\<lparr>action_results := Some r\<rparr>"

definition event_fail :: "string \<Rightarrow> charm_state \<Rightarrow> charm_state" where
  "event_fail msg s = s\<lparr>action_failure := Some msg\<rparr>"

text \<open>\<^verbatim>\<open>f"{self.charm.app.name}/0"\<close> and \<^verbatim>\<open>f"{self.charm.app.name}/{self.charm.app.planned_units() - 1}"\<close>.\<close>

definition unit_zero_name :: "charm_state \<Rightarrow> string" where
  "unit_zero_name s = app_name s @ ''/0''"

definition last_unit_name :: "charm_state \<Rightarrow> string" where
  "last_unit_name s = app_name s @ ''/'' @ str_int (planned_units s - 1)"

subsection \<open>Collaborators that are not part of \<^verbatim>\<open>src/upgrade.py\<close>\<close>

text \<open>
  Modelled from the spec: \<^verbatim>\<open>set_unit_failed\<close> is inherited from the upgrade library
  (\<^verbatim>\<open>charms.data_platform_libs.v0.upgrade.DataUpgrade\<close>), which is not among the sources.
  The spec (4.1) says of it: mark this unit "failed"; UnitUpgradeState is the per-unit,
  self-written field of PeerState (3).
\<close>

definition set_unit_failed :: "charm_state \<Rightarrow> charm_state" where
  "set_unit_failed s = s\<lparr>unit_data := (unit_data s)(''state'' \<mapsto> ''failed'')\<rparr>"

text \<open>
  Modelled from the spec: \<^verbatim>\<open>self.charm._patroni.switchover\<close> lives in the
  \<^verbatim>\<open>patroni\<close> module, which is not among the sources. The spec (6) says: \<^verbatim>\<open>switchover(target: Optional[unit_name])\<close> fails
  with SwitchoverFailed(reason) if the manager rejects or times out. The request is
  recorded in \<open>switchovers\<close>; the result is the failure reason, if any. Which member is
  primary afterwards is the replication manager's answer to a later query; no method of
  the module asks again after a switchover.
\<close>

definition switchover :: "string option \<Rightarrow> charm_state \<Rightarrow> string option \<times> charm_state" where
  "switchover candidate s =
     (switchover_failure s candidate, s\<lparr>switchovers := switchovers s @ [candidate]\<rparr>)"

text \<open>
  Modelled from the spec: \<^verbatim>\<open>self.charm.update_config()\<close> is the charm's configuration
  renderer, an external collaborator (4.1: re-render this unit's configuration). Only the
  fact that it ran is recorded.
\<close>

definition update_config :: "charm_state \<Rightarrow> charm_state" where
  "update_config s = s\<lparr>config_updates := Suc (config_updates s)\<rparr>"

subsection \<open>The orchestrator's rolling-update partition\<close>

definition get_rolling_update_partition :: "charm_state \<Rightarrow> error + int" where
  "get_rolling_update_partition s =
     (if api_get_fails s then Inl ApiError else Inr (rolling_update_partition s))"

definition set_rolling_update_partition :: "int \<Rightarrow> charm_state \<Rightarrow> outcome" where
  "set_rolling_update_partition p s =
     (let s1 = logger INFO (''partition: '' @ str_int p) s;
          s2 = s1\<lparr>patch_requests := patch_requests s1 @ [p]\<rparr>
      in if api_patch_fails s2 then Raised ApiError s2
         else Returned (s2\<lparr>rolling_update_partition := p\<rparr>))"

definition set_first_rolling_update_partition :: "charm_state \<Rightarrow> outcome" where
  "set_first_rolling_update_partition s = set_rolling_update_partition (planned_units s - 1) s"

subsection \<open>MinOrdinalSyncStandbys\<close>

definition set_min_ordinal_sync_standbys :: "charm_state \<Rightarrow> outcome" where
  "set_min_ordinal_sync_standbys s =
     (if \<not> is_cluster_initialised s \<or> \<not> is_leader s then Returned s
      else
        let primary_unit_name = primary s;
            unit_zero_name = app_name s @ ''/0''
        in if planned_units s > 2 \<and> primary_unit_name \<noteq> unit_zero_name then
             (case get_rolling_update_partition s of
                Inl e \<Rightarrow> Raised e s
              | Inr min_ordinal_sync_standbys \<Rightarrow>
                  if \<not> has_peer_relation s then Raised AttributeError s
                  else Returned (s\<lparr>app_data := (app_data s)
                         (''min-ordinal-sync-standbys'' \<mapsto> str_int min_ordinal_sync_standbys)\<rparr>))
           else Returned s)"

subsection \<open>Handlers\<close>

definition log_rollback_instructions :: "charm_state \<Rightarrow> charm_state" where
  "log_rollback_instructions s =
     logger INFO ''and `juju run-action postgresql-k8s/leader resume-upgrade` to finish the rollback''
       (logger INFO ''Run `juju refresh --revision <previous-revision> postgresql-k8s` to rollback'' s)"

text \<open>
  \<^verbatim>\<open>except ApiError\<close> of \<^verbatim>\<open>_on_resume_upgrade\<close>: the failure message is replaced and the
  action fails; any other exception is not caught.
\<close>

definition resume_except :: "error \<Rightarrow> charm_state \<Rightarrow> outcome" where
  "resume_except e s =
     (case e of
        ApiError \<Rightarrow> Returned (event_fail ''Cannot set rolling update partition'' s)
      | _ \<Rightarrow> Raised e s)"

definition on_resume_upgrade :: "charm_state \<Rightarrow> outcome" where
  "on_resume_upgrade s =
     (let fail_message = ''Nothing to resume, upgrade stack unset''
      in case get_rolling_update_partition s of
           Inl e \<Rightarrow> resume_except e s
         | Inr p \<Rightarrow>
             let next_partition = p - 1
             in if next_partition \<ge> 0 then
                  (case set_rolling_update_partition next_partition s of
                     Raised e s1 \<Rightarrow> resume_except e s1
                   | Returned s1 \<Rightarrow>
                       Returned (event_set_results
                         [''message'' \<mapsto> ''Upgrade will resume on unit '' @ str_int next_partition] s1))
                else Returned (event_fail fail_message s))"

definition on_upgrade_changed :: "charm_state \<Rightarrow> outcome" where
  "on_upgrade_changed s =
     (if \<not> has_peer_relation s then Returned (event_defer s)
      else
        (case set_min_ordinal_sync_standbys s of
           Raised e s1 \<Rightarrow> Raised e s1
         | Returned s1 \<Rightarrow> Returned (update_config s1)))"

text \<open>\<^verbatim>\<open>except ApiError\<close> of \<^verbatim>\<open>_on_upgrade_finished\<close>.\<close>

definition finished_except :: "error \<Rightarrow> charm_state \<Rightarrow> outcome" where
  "finished_except e s =
     (case e of
        ApiError \<Rightarrow>
          Returned (log_rollback_instructions (set_unit_failed
            (logger ERROR ''Cannot set rolling update partition'' s)))
      | _ \<Rightarrow> Raised e s)"

definition on_upgrade_finished :: "charm_state \<Rightarrow> outcome" where
  "on_upgrade_finished s =
     (let s1 = logger ERROR (''finished for '' @ unit_name s) s
      in if unit_name s1 \<noteq> app_name s1 @ ''/'' @ str_int (planned_units s1 - 1) then
           let s2 = logger DEBUG ''Set rolling update partition to next unit'' s1
           in (case get_rolling_update_partition s2 of
                 Inl e \<Rightarrow> finished_except e s2
               | Inr p \<Rightarrow>
                   let next_partition = p - 1
                   in if next_partition \<ge> 0 then
                        (case set_rolling_update_partition next_partition s2 of
                           Raised e s3 \<Rightarrow> finished_except e s3
                         | Returned s3 \<Rightarrow> Returned s3)
                      else Returned s2)
         else Returned s1)"

text \<open>
  Modelled from the spec: \<^verbatim>\<open>set_unit_completed\<close> is inherited from the upgrade library
  (\<^verbatim>\<open>charms.data_platform_libs.v0.upgrade.DataUpgrade\<close>), which is not among the sources.
  The spec (4.1) says of it: mark this unit's state "completed"; and it says of
  on_upgrade_unit_finished that it fires when a single unit's upgrade fully completes (the
  state machine reaches "completed"). The module registers no observer for that event
  (\<^verbatim>\<open>__init__\<close> observes the relation change, pebble ready and the resume action only), it
  overrides the library's handler \<^verbatim>\<open>_on_upgrade_finished\<close>; and the spec's data flow (2) has
  the workload-ready signal end in the partition advance. So marking the unit completed
  writes the state and then runs \<^verbatim>\<open>_on_upgrade_finished\<close> on the state so marked.
\<close>

definition set_unit_completed :: "charm_state \<Rightarrow> outcome" where
  "set_unit_completed s =
     on_upgrade_finished (s\<lparr>unit_data := (unit_data s)(''state'' \<mapsto> ''completed'')\<rparr>)"

definition postgresql_on_pebble_ready :: "charm_state \<Rightarrow> outcome" where
  "postgresql_on_pebble_ready s =
     (if \<not> has_peer_relation s then
        Returned (event_defer (logger ERROR ''Deferring on_pebble_ready: no upgrade peer relation yet'' s))
      else if unit_data s ''state'' \<noteq> Some ''upgrading'' then Returned s
      else if \<not> member_started s then
        Returned (event_defer (logger ERROR ''Deferring on_pebble_ready: Patroni has not started yet'' s))
      else
        let primary_unit_name = primary s;
            s1 = logger ERROR (''primary_unit_name: '' @ primary_unit_name) s;
            unit_zero_name = app_name s1 @ ''/0'';
            sync_standby_names = sync_standby_names s1;
            s2 = logger ERROR (''sync_standby_names: '' @ str_list sync_standby_names) s1
        in if unit_name s2 \<noteq> unit_zero_name
              \<and> primary_unit_name \<noteq> unit_zero_name
              \<and> length sync_standby_names > 0
              \<and> sync_standby_names ! 0 \<noteq> unit_name s2
           then
             (case set_min_ordinal_sync_standbys s2 of
                Raised e s3 \<Rightarrow> Raised e s3
              | Returned s3 \<Rightarrow>
                  Returned (event_defer (logger ERROR
                    ''Deferring on_pebble_ready: this unit is not the only synchronous standby yet'' s3)))
           else set_unit_completed s2)"

text \<open>
  \<^verbatim>\<open>try: switchover(...) except SwitchoverFailedError as e: raise ClusterNotReadyError(str(e), hint)\<close>
  followed by \<^verbatim>\<open>self._set_first_rolling_update_partition()\<close>, as it occurs twice in
  \<^verbatim>\<open>pre_upgrade_check\<close>.
\<close>

definition switchover_then_set_first :: "string option \<Rightarrow> string \<Rightarrow> charm_state \<Rightarrow> outcome" where
  "switchover_then_set_first candidate hint s =
     (case switchover candidate s of
        (Some e, s1) \<Rightarrow> Raised (ClusterNotReadyError e hint) s1
      | (None, s1) \<Rightarrow> set_first_rolling_update_partition s1)"

definition pre_upgrade_check :: "charm_state \<Rightarrow> outcome" where
  "pre_upgrade_check s =
     (if \<not> is_cluster_initialised s then
        (let message = ''cluster has not initialised yet''
         in Raised (ClusterNotReadyError message message) s)
      else
        let primary_unit_name = primary s;
            unit_zero_name = app_name s @ ''/0''
        in if primary_unit_name = unit_zero_name then set_first_rolling_update_partition s
           else
             let sync_standby_names = sync_standby_names s
             in if length sync_standby_names = 0 then
                  Raised (ClusterNotReadyError ''invalid number of sync nodes'' ''no action!'') s
                else if unit_zero_name \<in> set sync_standby_names then
                  switchover_then_set_first (Some unit_zero_name)
                    (''try to switchover manually to '' @ unit_zero_name) s
                else if primary_unit_name = app_name s @ ''/'' @ str_int (planned_units s - 1) then
                  switchover_then_set_first None
                    ''try to manually switchover to any synchronous standby'' s
                else set_first_rolling_update_partition s)"

section \<open>A three-unit cluster for the examples\<close>

text \<open>
  Application \<^verbatim>\<open>postgresql-k8s\<close> with three planned units, seen from unit 1, which is the
  juju leader and the current primary; unit 0 is the synchronous standby; the partition is
  2, the orchestrator answers, and the unit's recorded upgrade state is "upgrading".
\<close>

definition cluster3 :: charm_state where
  "cluster3 = \<lparr>app_name = ''postgresql-k8s'', unit_name = ''postgresql-k8s/1'',
     planned_units = 3, is_cluster_initialised = True, is_leader = True,
     member_started = True, primary = ''postgresql-k8s/1'',
     sync_standby_names = [''postgresql-k8s/0''], switchover_failure = (\<lambda>c. None),
     api_get_fails = False, api_patch_fails = False, has_peer_relation = True,
     rolling_update_partition = 2, patch_requests = [], app_data = Map.empty,
     unit_data = [''state'' \<mapsto> ''upgrading''], switchovers = [], config_updates = 0,
     deferred = False, action_results = None, action_failure = None, log_records = []\<rparr>"

section \<open>Basic facts\<close>

lemmas partition_defs = get_rolling_update_partition_def set_rolling_update_partition_def
  set_first_rolling_update_partition_def logger_def

lemmas event_defs = event_defer_def event_fail_def event_set_results_def

lemma str_int_small:
  "str_int 0 = ''0''" "str_int 1 = ''1''" "str_int 2 = ''2''" "str_int 3 = ''3''"
  "str_int (- 1) = ''-1''"
  by (simp_all add: str_int_def str_nat.simps digit_char_def)

lemma logger_reads:
  "app_name (logger l m s) = app_name s"
  "unit_name (logger l m s) = unit_name s"
  "planned_units (logger l m s) = planned_units s"
  "is_cluster_initialised (logger l m s) = is_cluster_initialised s"
  "is_leader (logger l m s) = is_leader s"
  "member_started (logger l m s) = member_started s"
  "primary (logger l m s) = primary s"
  "sync_standby_names (logger l m s) = sync_standby_names s"
  "api_get_fails (logger l m s) = api_get_fails s"
  "api_patch_fails (logger l m s) = api_patch_fails s"
  "rolling_update_partition (logger l m s) = rolling_update_partition s"
  "has_peer_relation (logger l m s) = has_peer_relation s"
  "app_data (logger l m s) = app_data s"
  "unit_data (logger l m s) = unit_data s"
  "deferred (logger l m s) = deferred s"
  "patch_requests (logger l m s) = patch_requests s"
  by (simp_all add: logger_def)

lemma str_nat_nonempty: "str_nat n \<noteq> []"
  by (subst str_nat.simps) simp

lemma digit_char_zero_iff:
  assumes "n < 10"
  shows "digit_char n = CHR ''0'' \<longleftrightarrow> n = 0"
proof -
  from assms have "n \<in> {0, 1, 2, 3, 4, 5, 6, 7, 8, 9}" by auto
  then show ?thesis by (auto simp: digit_char_def)
qed

lemma str_nat_zero_iff: "str_nat n = ''0'' \<longleftrightarrow> n = 0"
proof (cases "n < 10")
  case True
  then show ?thesis by (subst str_nat.simps) (simp add: digit_char_zero_iff)
next
  case False
  have "str_nat n = str_nat (n div 10) @ [digit_char (n mod 10)]"
    using False by (subst str_nat.simps) simp
  then have "length (str_nat n) \<ge> 2"
    using str_nat_nonempty [of "n div 10"] by (cases "str_nat (n div 10)") auto
  with False show ?thesis by auto
qed

lemma str_int_zero_iff: "str_int i = ''0'' \<longleftrightarrow> i = 0"
  by (auto simp: str_int_def str_nat_zero_iff)

text \<open>
  The unit that \<^verbatim>\<open>_on_upgrade_finished\<close> exempts, \<^verbatim>\<open>app/(planned_units - 1)\<close>, is unit 0
  only in a cluster of one planned unit.
\<close>

lemma last_unit_is_unit_zero_iff:
  "last_unit_name s = unit_zero_name s \<longleftrightarrow> planned_units s = 1"
  by (auto simp: last_unit_name_def unit_zero_name_def str_int_zero_iff)

lemma set_rolling_update_partition_Returned:
  assumes "set_rolling_update_partition p s = Returned s'"
  shows "rolling_update_partition s' = p" and "planned_units s' = planned_units s"
    and "\<not> api_patch_fails s"
  using assms by (auto simp: partition_defs Let_def split: if_splits)

lemma set_rolling_update_partition_Raised:
  assumes "set_rolling_update_partition p s = Raised e s'"
  shows "e = ApiError" and "rolling_update_partition s' = rolling_update_partition s"
    and "api_patch_fails s"
  using assms by (auto simp: partition_defs Let_def split: if_splits)

lemma set_min_ordinal_sync_standbys_frame:
  "rolling_update_partition (state_of (set_min_ordinal_sync_standbys s)) = rolling_update_partition s"
  "unit_data (state_of (set_min_ordinal_sync_standbys s)) = unit_data s"
  "deferred (state_of (set_min_ordinal_sync_standbys s)) = deferred s"
  "log_records (state_of (set_min_ordinal_sync_standbys s)) = log_records s"
  "patch_requests (state_of (set_min_ordinal_sync_standbys s)) = patch_requests s"
  by (simp_all add: set_min_ordinal_sync_standbys_def get_rolling_update_partition_def Let_def)

lemma successful_pre_upgrade_check_ends_in_set_first:
  assumes "pre_upgrade_check s = Returned s'"
  shows "\<exists>s0. set_first_rolling_update_partition s0 = Returned s'
           \<and> planned_units s0 = planned_units s"
proof -
  from assms have init: "is_cluster_initialised s"
    by (auto simp: pre_upgrade_check_def Let_def split: if_splits)
  show ?thesis
  proof (cases "primary s = app_name s @ ''/0''")
    case True
    with init assms show ?thesis by (auto simp: pre_upgrade_check_def Let_def)
  next
    case False
    with init assms have nonempty: "sync_standby_names s \<noteq> []"
      by (auto simp: pre_upgrade_check_def Let_def split: if_splits)
    let ?s1 = "\<lambda>c. s\<lparr>switchovers := switchovers s @ [c]\<rparr>"
    from init False nonempty assms
    consider "set_first_rolling_update_partition s = Returned s'"
      | c where "set_first_rolling_update_partition (?s1 c) = Returned s'"
      by (auto simp: pre_upgrade_check_def switchover_then_set_first_def switchover_def Let_def
          split: if_splits option.splits)
    then show ?thesis
    proof cases
      case 1
      then show ?thesis by blast
    next
      case 2
      have "planned_units (?s1 c) = planned_units s" by simp
      with 2 show ?thesis by blast
    qed
  qed
qed

text \<open>
  What \<^verbatim>\<open>_on_upgrade_finished\<close> leaves behind, in full: it always returns; it defers
  nothing and does not touch the application data bag; it calls \<^verbatim>\<open>client.patch\<close> at most
  once, with \<open>P - 1\<close>; and it marks the unit failed exactly when the read or that call
  raises.
\<close>

lemma on_upgrade_finished_effect:
  "\<exists>s'. on_upgrade_finished s = Returned s'
     \<and> deferred s' = deferred s \<and> app_data s' = app_data s
     \<and> unit_data s' =
         (if unit_name s \<noteq> last_unit_name s
             \<and> (api_get_fails s \<or> (0 \<le> rolling_update_partition s - 1 \<and> api_patch_fails s))
          then (unit_data s)(''state'' \<mapsto> ''failed'') else unit_data s)
     \<and> patch_requests s' = patch_requests s @
         (if unit_name s \<noteq> last_unit_name s \<and> \<not> api_get_fails s
             \<and> 0 \<le> rolling_update_partition s - 1
          then [rolling_update_partition s - 1] else [])
     \<and> rolling_update_partition s' =
         (if unit_name s \<noteq> last_unit_name s \<and> \<not> api_get_fails s
             \<and> 0 \<le> rolling_update_partition s - 1 \<and> \<not> api_patch_fails s
          then rolling_update_partition s - 1 else rolling_update_partition s)"
  by (auto simp: on_upgrade_finished_def finished_except_def log_rollback_instructions_def
      set_unit_failed_def last_unit_name_def partition_defs Let_def)

text \<open>The two ways \<^verbatim>\<open>_postgresql_on_pebble_ready\<close> can end once it has passed its three guards.\<close>

lemma pebble_ready_gate_branch:
  assumes "has_peer_relation s" and "unit_data s ''state'' = Some ''upgrading''"
    and "member_started s"
    and "unit_name s \<noteq> unit_zero_name s \<and> primary s \<noteq> unit_zero_name s
       \<and> 0 < length (sync_standby_names s) \<and> sync_standby_names s ! 0 \<noteq> unit_name s"
  shows "postgresql_on_pebble_ready s =
     (case set_min_ordinal_sync_standbys
        (logger ERROR (''sync_standby_names: '' @ str_list (sync_standby_names s))
          (logger ERROR (''primary_unit_name: '' @ primary s) s)) of
        Raised e s3 \<Rightarrow> Raised e s3
      | Returned s3 \<Rightarrow> Returned (event_defer (logger ERROR
          ''Deferring on_pebble_ready: this unit is not the only synchronous standby yet''
          s3)))"
  using assms
  by (simp add: postgresql_on_pebble_ready_def unit_zero_name_def logger_reads Let_def)

lemma pebble_ready_completed_branch:
  assumes "has_peer_relation s" and "unit_data s ''state'' = Some ''upgrading''"
    and "member_started s"
    and "\<not> (unit_name s \<noteq> unit_zero_name s \<and> primary s \<noteq> unit_zero_name s
       \<and> 0 < length (sync_standby_names s) \<and> sync_standby_names s ! 0 \<noteq> unit_name s)"
  shows "postgresql_on_pebble_ready s =
     set_unit_completed
        (logger ERROR (''sync_standby_names: '' @ str_list (sync_standby_names s))
          (logger ERROR (''primary_unit_name: '' @ primary s) s))"
  using assms
  by (auto simp: postgresql_on_pebble_ready_def unit_zero_name_def logger_reads Let_def)

lemma set_unit_completed_effect:
  "\<exists>s'. set_unit_completed s = Returned s'
     \<and> deferred s' = deferred s \<and> app_data s' = app_data s
     \<and> unit_data s' ''state'' = Some
         (if unit_name s \<noteq> last_unit_name s
             \<and> (api_get_fails s \<or> (0 \<le> rolling_update_partition s - 1 \<and> api_patch_fails s))
          then ''failed'' else ''completed'')
     \<and> patch_requests s' = patch_requests s @
         (if unit_name s \<noteq> last_unit_name s \<and> \<not> api_get_fails s
             \<and> 0 \<le> rolling_update_partition s - 1
          then [rolling_update_partition s - 1] else [])
     \<and> rolling_update_partition s' =
         (if unit_name s \<noteq> last_unit_name s \<and> \<not> api_get_fails s
             \<and> 0 \<le> rolling_update_partition s - 1 \<and> \<not> api_patch_fails s
          then rolling_update_partition s - 1 else rolling_update_partition s)"
proof -
  let ?m = "s\<lparr>unit_data := (unit_data s)(''state'' \<mapsto> ''completed'')\<rparr>"
  from on_upgrade_finished_effect [of ?m]
  obtain s' where run: "on_upgrade_finished ?m = Returned s'"
    and rest: "deferred s' = deferred ?m" "app_data s' = app_data ?m"
      "unit_data s' =
         (if unit_name ?m \<noteq> last_unit_name ?m
             \<and> (api_get_fails ?m \<or> (0 \<le> rolling_update_partition ?m - 1 \<and> api_patch_fails ?m))
          then (unit_data ?m)(''state'' \<mapsto> ''failed'') else unit_data ?m)"
      "patch_requests s' = patch_requests ?m @
         (if unit_name ?m \<noteq> last_unit_name ?m \<and> \<not> api_get_fails ?m
             \<and> 0 \<le> rolling_update_partition ?m - 1
          then [rolling_update_partition ?m - 1] else [])"
      "rolling_update_partition s' =
         (if unit_name ?m \<noteq> last_unit_name ?m \<and> \<not> api_get_fails ?m
             \<and> 0 \<le> rolling_update_partition ?m - 1 \<and> \<not> api_patch_fails ?m
          then rolling_update_partition ?m - 1 else rolling_update_partition ?m)"
    by blast
  from run have "set_unit_completed s = Returned s'" by (simp add: set_unit_completed_def)
  with rest show ?thesis by (simp add: last_unit_name_def)
qed

section \<open>The claims\<close>

subsection \<open>C1: the partition after a unit has finished\<close>

text \<open>
  C1, as amended. \<^verbatim>\<open>_on_upgrade_finished\<close> exempts the highest-ordinal unit
  \<^verbatim>\<open>app/(planned_units - 1)\<close>, not unit 0. When the finishing unit is that unit, the handler
  returns and the partition is unchanged. When it is any other unit and the orchestrator
  read, and the write if one is made, succeed, the handler returns and the partition \<open>P\<close>
  becomes \<open>P - 1\<close> if \<open>P - 1 \<ge> 0\<close> and stays \<open>P\<close> otherwise (the decrement logic of
  resume). Whatever the
  unit and whatever the API does, a partition that is not negative stays not negative; in
  particular unit 0 finishing at partition 0 leaves the partition at 0.
\<close>

theorem upgrade_finished_partition:
  "(unit_name s = last_unit_name s \<longrightarrow>
      raised (on_upgrade_finished s) = None
      \<and> rolling_update_partition (state_of (on_upgrade_finished s)) = rolling_update_partition s)
   \<and> (unit_name s \<noteq> last_unit_name s \<and> \<not> api_get_fails s
        \<and> (0 \<le> rolling_update_partition s - 1 \<longrightarrow> \<not> api_patch_fails s) \<longrightarrow>
      raised (on_upgrade_finished s) = None
      \<and> rolling_update_partition (state_of (on_upgrade_finished s)) =
          (if 0 \<le> rolling_update_partition s - 1 then rolling_update_partition s - 1
           else rolling_update_partition s))
   \<and> (0 \<le> rolling_update_partition s \<longrightarrow>
        0 \<le> rolling_update_partition (state_of (on_upgrade_finished s)))
   \<and> (unit_name s = unit_zero_name s \<and> rolling_update_partition s = 0 \<longrightarrow>
        rolling_update_partition (state_of (on_upgrade_finished s)) = 0)"
proof (cases "unit_name s = last_unit_name s")
  case True
  then have "on_upgrade_finished s = Returned (logger ERROR (''finished for '' @ unit_name s) s)"
    by (simp add: on_upgrade_finished_def last_unit_name_def logger_def Let_def)
  with True show ?thesis by (simp add: logger_def)
next
  case False
  then have advance: "on_upgrade_finished s =
      (let s2 = logger DEBUG ''Set rolling update partition to next unit''
                  (logger ERROR (''finished for '' @ unit_name s) s)
       in case get_rolling_update_partition s2 of
            Inl e \<Rightarrow> finished_except e s2
          | Inr p \<Rightarrow>
              if 0 \<le> p - 1 then
                (case set_rolling_update_partition (p - 1) s2 of
                   Raised e s3 \<Rightarrow> finished_except e s3
                 | Returned s3 \<Rightarrow> Returned s3)
              else Returned s2)"
    unfolding on_upgrade_finished_def Let_def
    by (simp add: last_unit_name_def logger_reads)
  show ?thesis
    unfolding advance using False
    by (auto simp: finished_except_def log_rollback_instructions_def set_unit_failed_def
        partition_defs Let_def)
qed

text \<open>
  The amended statement at work in the three-unit cluster: unit 2 (the highest ordinal)
  finishes and the partition stays 2; unit 1 finishes and the partition goes from 2 to 1;
  unit 0 finishes at partition 0 and the partition stays 0.
\<close>

theorem upgrade_finished_partition_witness:
  "unit_name (cluster3\<lparr>unit_name := ''postgresql-k8s/2''\<rparr>)
     = last_unit_name (cluster3\<lparr>unit_name := ''postgresql-k8s/2''\<rparr>)
   \<and> rolling_update_partition (state_of (on_upgrade_finished
        (cluster3\<lparr>unit_name := ''postgresql-k8s/2''\<rparr>))) = 2
   \<and> unit_name cluster3 \<noteq> last_unit_name cluster3
   \<and> \<not> api_get_fails cluster3 \<and> \<not> api_patch_fails cluster3
   \<and> raised (on_upgrade_finished cluster3) = None
   \<and> rolling_update_partition (state_of (on_upgrade_finished cluster3)) = 1
   \<and> rolling_update_partition (state_of (on_upgrade_finished
        (cluster3\<lparr>unit_name := ''postgresql-k8s/0'', rolling_update_partition := 0\<rparr>))) = 0"
  using upgrade_finished_partition [of "cluster3\<lparr>unit_name := ''postgresql-k8s/2''\<rparr>"]
    upgrade_finished_partition [of cluster3]
    upgrade_finished_partition
      [of "cluster3\<lparr>unit_name := ''postgresql-k8s/0'', rolling_update_partition := 0\<rparr>"]
  by (simp add: cluster3_def last_unit_name_def unit_zero_name_def str_int_small)

text \<open>
  C1 as stated fails. In the three-unit cluster at partition 2 with the API answering,
  unit 2 is not unit 0, yet when it finishes the handler returns having only logged, and
  the partition is still 2, not 1. And when unit 0 finishes at partition 1 the partition is
  changed to 0.
\<close>

theorem upgrade_finished_last_unit_counterexample:
  "unit_name (cluster3\<lparr>unit_name := ''postgresql-k8s/2''\<rparr>)
      \<noteq> unit_zero_name (cluster3\<lparr>unit_name := ''postgresql-k8s/2''\<rparr>)
   \<and> on_upgrade_finished (cluster3\<lparr>unit_name := ''postgresql-k8s/2''\<rparr>)
      = Returned (logger ERROR ''finished for postgresql-k8s/2''
          (cluster3\<lparr>unit_name := ''postgresql-k8s/2''\<rparr>))
   \<and> rolling_update_partition (cluster3\<lparr>unit_name := ''postgresql-k8s/2''\<rparr>) = 2
   \<and> rolling_update_partition (state_of (on_upgrade_finished
        (cluster3\<lparr>unit_name := ''postgresql-k8s/2''\<rparr>))) = 2
   \<and> unit_name (cluster3\<lparr>unit_name := ''postgresql-k8s/0'', rolling_update_partition := 1\<rparr>)
      = unit_zero_name (cluster3\<lparr>unit_name := ''postgresql-k8s/0'', rolling_update_partition := 1\<rparr>)
   \<and> rolling_update_partition (state_of (on_upgrade_finished
        (cluster3\<lparr>unit_name := ''postgresql-k8s/0'', rolling_update_partition := 1\<rparr>))) = 0"
  by (simp add: on_upgrade_finished_def cluster3_def unit_zero_name_def str_int_small
      partition_defs Let_def)

subsection \<open>C2: the partition after a successful pre-upgrade check\<close>

text \<open>
  C2. Every run of \<^verbatim>\<open>pre_upgrade_check\<close> that returns (does not raise) leaves the partition
  at \<^verbatim>\<open>planned_units - 1\<close>; so for a planned unit count \<open>N > 0\<close> the partition then lies in
  \<open>[0, N - 1]\<close>. The statement is about every returning run, whichever branch it took.
\<close>

theorem pre_upgrade_check_first_partition:
  assumes "pre_upgrade_check s = Returned s'"
  shows "rolling_update_partition s' = planned_units s - 1
     \<and> (0 < planned_units s \<longrightarrow>
          0 \<le> rolling_update_partition s' \<and> rolling_update_partition s' \<le> planned_units s - 1)"
proof -
  from successful_pre_upgrade_check_ends_in_set_first [OF assms]
  obtain s0 where run: "set_first_rolling_update_partition s0 = Returned s'"
    and units: "planned_units s0 = planned_units s" by blast
  from run have "rolling_update_partition s' = planned_units s0 - 1"
    unfolding set_first_rolling_update_partition_def
    by (rule set_rolling_update_partition_Returned)
  with units show ?thesis by simp
qed

text \<open>
  The four returning branches, each started at partition 0 in the three-unit cluster: the
  primary is already unit 0; unit 0 is a synchronous standby and becomes the switchover
  target; the primary is the highest-ordinal unit 2 and a switchover without target is
  made; the primary is the middle unit 1 and nothing is switched. Each ends at partition 2.
\<close>

theorem pre_upgrade_check_first_partition_witness:
  "(\<exists>s'. pre_upgrade_check (cluster3\<lparr>rolling_update_partition := 0,
            primary := ''postgresql-k8s/0''\<rparr>) = Returned s'
         \<and> rolling_update_partition s' = 2 \<and> switchovers s' = [])
   \<and> (\<exists>s'. pre_upgrade_check (cluster3\<lparr>rolling_update_partition := 0\<rparr>) = Returned s'
         \<and> rolling_update_partition s' = 2 \<and> switchovers s' = [Some ''postgresql-k8s/0''])
   \<and> (\<exists>s'. pre_upgrade_check (cluster3\<lparr>rolling_update_partition := 0,
            primary := ''postgresql-k8s/2'', sync_standby_names := [''postgresql-k8s/1'']\<rparr>)
           = Returned s'
         \<and> rolling_update_partition s' = 2 \<and> switchovers s' = [None])
   \<and> (\<exists>s'. pre_upgrade_check (cluster3\<lparr>rolling_update_partition := 0,
            sync_standby_names := [''postgresql-k8s/2'']\<rparr>) = Returned s'
         \<and> rolling_update_partition s' = 2 \<and> switchovers s' = [])"
proof -
  let ?a = "cluster3\<lparr>rolling_update_partition := 0, primary := ''postgresql-k8s/0''\<rparr>"
  let ?b = "cluster3\<lparr>rolling_update_partition := 0\<rparr>"
  let ?c = "cluster3\<lparr>rolling_update_partition := 0,
              primary := ''postgresql-k8s/2'', sync_standby_names := [''postgresql-k8s/1'']\<rparr>"
  let ?d = "cluster3\<lparr>rolling_update_partition := 0,
              sync_standby_names := [''postgresql-k8s/2'']\<rparr>"
  note run_defs = pre_upgrade_check_def switchover_then_set_first_def switchover_def
    partition_defs cluster3_def str_int_small Let_def
  have "\<exists>s'. pre_upgrade_check ?a = Returned s' \<and> switchovers s' = []"
    by (simp add: run_defs)
  then obtain sa where a: "pre_upgrade_check ?a = Returned sa" "switchovers sa = []" by blast
  have "\<exists>s'. pre_upgrade_check ?b = Returned s' \<and> switchovers s' = [Some ''postgresql-k8s/0'']"
    by (simp add: run_defs)
  then obtain sb where b: "pre_upgrade_check ?b = Returned sb"
    "switchovers sb = [Some ''postgresql-k8s/0'']" by blast
  have "\<exists>s'. pre_upgrade_check ?c = Returned s' \<and> switchovers s' = [None]"
    by (simp add: run_defs)
  then obtain sc where c: "pre_upgrade_check ?c = Returned sc" "switchovers sc = [None]"
    by blast
  have "\<exists>s'. pre_upgrade_check ?d = Returned s' \<and> switchovers s' = []"
    by (simp add: run_defs)
  then obtain sd where d: "pre_upgrade_check ?d = Returned sd" "switchovers sd = []" by blast
  have "rolling_update_partition sa = 2"
    using pre_upgrade_check_first_partition [OF a(1)] by (simp add: cluster3_def)
  moreover have "rolling_update_partition sb = 2"
    using pre_upgrade_check_first_partition [OF b(1)] by (simp add: cluster3_def)
  moreover have "rolling_update_partition sc = 2"
    using pre_upgrade_check_first_partition [OF c(1)] by (simp add: cluster3_def)
  moreover have "rolling_update_partition sd = 2"
    using pre_upgrade_check_first_partition [OF d(1)] by (simp add: cluster3_def)
  ultimately show ?thesis using a b c d by blast
qed

subsection \<open>C3: the resume action\<close>

text \<open>
  C3. \<^verbatim>\<open>_on_resume_upgrade\<close> always returns, and its outcome is decided by the partition
  \<open>P\<close> read from the orchestrator: if the read and the write succeed and \<open>P > 0\<close>, the
  partition becomes \<open>P - 1\<close> and the action's result message names unit \<open>P - 1\<close>, with no
  failure recorded; if the read succeeds and \<open>P - 1 < 0\<close> (so for \<open>P = 0\<close>), the action
  fails with "Nothing to resume, upgrade stack unset"; if the read raises ApiError, or the
  write that \<open>P > 0\<close> leads to does, the action fails with "Cannot set rolling update
  partition". In both failures the partition is unchanged and no result is set.
\<close>

theorem on_resume_upgrade_cases:
  "(\<not> api_get_fails s \<and> 0 < rolling_update_partition s \<and> \<not> api_patch_fails s \<longrightarrow>
      (\<exists>s'. on_resume_upgrade s = Returned s'
        \<and> rolling_update_partition s' = rolling_update_partition s - 1
        \<and> action_results s' = Some [''message'' \<mapsto>
             ''Upgrade will resume on unit '' @ str_int (rolling_update_partition s - 1)]
        \<and> action_failure s' = action_failure s))
   \<and> (\<not> api_get_fails s \<and> rolling_update_partition s \<le> 0 \<longrightarrow>
      (\<exists>s'. on_resume_upgrade s = Returned s'
        \<and> action_failure s' = Some ''Nothing to resume, upgrade stack unset''
        \<and> rolling_update_partition s' = rolling_update_partition s
        \<and> action_results s' = action_results s))
   \<and> (api_get_fails s \<or> (0 < rolling_update_partition s \<and> api_patch_fails s) \<longrightarrow>
      (\<exists>s'. on_resume_upgrade s = Returned s'
        \<and> action_failure s' = Some ''Cannot set rolling update partition''
        \<and> rolling_update_partition s' = rolling_update_partition s
        \<and> action_results s' = action_results s))"
proof (cases "api_get_fails s")
  case True
  then show ?thesis
    by (simp add: on_resume_upgrade_def get_rolling_update_partition_def resume_except_def
        event_fail_def)
next
  case read: False
  show ?thesis
  proof (cases "0 \<le> rolling_update_partition s - 1")
    case False
    with read show ?thesis
      by (simp add: on_resume_upgrade_def get_rolling_update_partition_def event_fail_def)
  next
    case True
    with read show ?thesis
      by (cases "api_patch_fails s")
        (simp_all add: on_resume_upgrade_def partition_defs resume_except_def event_defs Let_def)
  qed
qed

text \<open>
  In the three-unit cluster: at partition 2 the action sets partition 1 and names unit 1; at
  partition 0 it fails with nothing to resume; with the orchestrator read failing, and with
  the write failing, it fails with the orchestrator message.
\<close>

theorem on_resume_upgrade_cases_witness:
  "(\<not> api_get_fails cluster3 \<and> 0 < rolling_update_partition cluster3
      \<and> \<not> api_patch_fails cluster3)
   \<and> (\<exists>s'. on_resume_upgrade cluster3 = Returned s'
         \<and> rolling_update_partition s' = 1
         \<and> action_results s' = Some [''message'' \<mapsto> ''Upgrade will resume on unit 1'']
         \<and> action_failure s' = None)
   \<and> (\<exists>s'. on_resume_upgrade (cluster3\<lparr>rolling_update_partition := 0\<rparr>) = Returned s'
         \<and> action_failure s' = Some ''Nothing to resume, upgrade stack unset''
         \<and> rolling_update_partition s' = 0)
   \<and> (\<exists>s'. on_resume_upgrade (cluster3\<lparr>api_get_fails := True\<rparr>) = Returned s'
         \<and> action_failure s' = Some ''Cannot set rolling update partition''
         \<and> rolling_update_partition s' = 2)
   \<and> (\<exists>s'. on_resume_upgrade (cluster3\<lparr>api_patch_fails := True\<rparr>) = Returned s'
         \<and> action_failure s' = Some ''Cannot set rolling update partition''
         \<and> rolling_update_partition s' = 2)"
  using on_resume_upgrade_cases [of cluster3]
    on_resume_upgrade_cases [of "cluster3\<lparr>rolling_update_partition := 0\<rparr>"]
    on_resume_upgrade_cases [of "cluster3\<lparr>api_get_fails := True\<rparr>"]
    on_resume_upgrade_cases [of "cluster3\<lparr>api_patch_fails := True\<rparr>"]
  by (simp add: cluster3_def str_int_small) blast

subsection \<open>C4: the synchronous-standby gate of the workload-ready handler\<close>

text \<open>
  C4, as amended. Take a unit with a peer relation whose recorded state is "upgrading" and
  whose Patroni member has started. If the unit is not unit 0, the primary is not unit 0,
  there is a synchronous standby and the first one is not this unit, then
  \<^verbatim>\<open>_postgresql_on_pebble_ready\<close> runs the MinOrdinalSyncStandbys refresh and does not mark
  the unit completed (its state stays "upgrading", nothing is sent to the orchestrator).
  What follows depends on the refresh. If this unit is the leader of an initialised cluster
  of more than two planned units and the orchestrator read raises ApiError, the handler
  raises that error: it does not defer and the hint is not written. Otherwise the handler
  returns with the event deferred and the hint as the refresh leaves it: set to the
  partition on that leader, untouched on any other unit. In every other case of the
  four-part condition the handler marks the unit completed through
  \<^verbatim>\<open>set_unit_completed\<close>, without deferring and without touching the hint; the
  upgrade-finished handling that completion fires leaves the state "completed" unless its
  partition advance fails at the orchestrator, which turns it to "failed" (C8).
\<close>

theorem pebble_ready_sync_standby_gate:
  assumes "has_peer_relation s" and "unit_data s ''state'' = Some ''upgrading''"
    and "member_started s"
  shows
   "(unit_name s \<noteq> unit_zero_name s \<and> primary s \<noteq> unit_zero_name s
       \<and> 0 < length (sync_standby_names s) \<and> sync_standby_names s ! 0 \<noteq> unit_name s \<longrightarrow>
       unit_data (state_of (postgresql_on_pebble_ready s)) ''state'' = Some ''upgrading''
       \<and> patch_requests (state_of (postgresql_on_pebble_ready s)) = patch_requests s
       \<and> (is_cluster_initialised s \<and> is_leader s \<and> 2 < planned_units s \<and> api_get_fails s \<longrightarrow>
            (\<exists>s'. postgresql_on_pebble_ready s = Raised ApiError s'
               \<and> deferred s' = deferred s \<and> app_data s' = app_data s))
       \<and> (\<not> (is_cluster_initialised s \<and> is_leader s \<and> 2 < planned_units s \<and> api_get_fails s) \<longrightarrow>
            (\<exists>s'. postgresql_on_pebble_ready s = Returned s' \<and> deferred s'
               \<and> app_data s' =
                   (if is_cluster_initialised s \<and> is_leader s \<and> 2 < planned_units s
                    then (app_data s)(''min-ordinal-sync-standbys'' \<mapsto>
                           str_int (rolling_update_partition s))
                    else app_data s))))
    \<and> (\<not> (unit_name s \<noteq> unit_zero_name s \<and> primary s \<noteq> unit_zero_name s
           \<and> 0 < length (sync_standby_names s) \<and> sync_standby_names s ! 0 \<noteq> unit_name s) \<longrightarrow>
         (\<exists>s'. postgresql_on_pebble_ready s = Returned s'
            \<and> unit_data s' ''state'' = Some
                (if unit_name s \<noteq> last_unit_name s
                    \<and> (api_get_fails s
                        \<or> (0 \<le> rolling_update_partition s - 1 \<and> api_patch_fails s))
                 then ''failed'' else ''completed'')
            \<and> deferred s' = deferred s \<and> app_data s' = app_data s))"
proof (cases "unit_name s \<noteq> unit_zero_name s \<and> primary s \<noteq> unit_zero_name s
       \<and> 0 < length (sync_standby_names s) \<and> sync_standby_names s ! 0 \<noteq> unit_name s")
  case False
  let ?s2 = "logger ERROR (''sync_standby_names: '' @ str_list (sync_standby_names s))
               (logger ERROR (''primary_unit_name: '' @ primary s) s)"
  have run: "postgresql_on_pebble_ready s = set_unit_completed ?s2"
    using assms False by (rule pebble_ready_completed_branch)
  from set_unit_completed_effect [of ?s2]
  have "\<exists>s'. set_unit_completed ?s2 = Returned s'
      \<and> unit_data s' ''state'' = Some
          (if unit_name s \<noteq> last_unit_name s
              \<and> (api_get_fails s \<or> (0 \<le> rolling_update_partition s - 1 \<and> api_patch_fails s))
           then ''failed'' else ''completed'')
      \<and> deferred s' = deferred s \<and> app_data s' = app_data s"
    by (auto simp: logger_reads last_unit_name_def cong: if_cong)
  with run have "(\<exists>s'. postgresql_on_pebble_ready s = Returned s'
           \<and> unit_data s' ''state'' = Some
               (if unit_name s \<noteq> last_unit_name s
                   \<and> (api_get_fails s
                       \<or> (0 \<le> rolling_update_partition s - 1 \<and> api_patch_fails s))
                then ''failed'' else ''completed'')
           \<and> deferred s' = deferred s \<and> app_data s' = app_data s)"
    by simp
  with False show ?thesis by blast
next
  case True
  let ?s2 = "logger ERROR (''sync_standby_names: '' @ str_list (sync_standby_names s))
               (logger ERROR (''primary_unit_name: '' @ primary s) s)"
  note run = pebble_ready_gate_branch [OF assms True]
  from True have primary: "primary s \<noteq> app_name s @ ''/0''"
    by (simp add: unit_zero_name_def)
  show ?thesis
  proof (cases "is_cluster_initialised s \<and> is_leader s \<and> 2 < planned_units s \<and> api_get_fails s")
    case raising: True
    with primary have "set_min_ordinal_sync_standbys ?s2 = Raised ApiError ?s2"
      by (simp add: set_min_ordinal_sync_standbys_def get_rolling_update_partition_def
          logger_reads)
    with run have "postgresql_on_pebble_ready s = Raised ApiError ?s2" by simp
    with True raising assms(2) show ?thesis by (simp add: logger_reads)
  next
    case quiet: False
    show ?thesis
    proof (cases "is_cluster_initialised s \<and> is_leader s \<and> 2 < planned_units s")
      case writes: True
      with quiet primary assms(1)
      have "set_min_ordinal_sync_standbys ?s2 =
          Returned (?s2\<lparr>app_data := (app_data s)(''min-ordinal-sync-standbys'' \<mapsto>
            str_int (rolling_update_partition s))\<rparr>)"
        by (simp add: set_min_ordinal_sync_standbys_def get_rolling_update_partition_def
            logger_reads)
      with run True quiet writes assms(2) show ?thesis
        by (simp add: event_defer_def logger_def)
    next
      case idle: False
      then have "set_min_ordinal_sync_standbys ?s2 = Returned ?s2"
        by (auto simp: set_min_ordinal_sync_standbys_def logger_reads)
      with run True quiet idle assms(2) show ?thesis
        by (auto simp: event_defer_def logger_def)
    qed
  qed
qed

text \<open>
  Unit 2 of the three-unit cluster, made its leader, while unit 0 is the first synchronous
  standby: the handler defers, writes the hint "2" and leaves the state "upgrading"; with
  the orchestrator read failing it raises ApiError and defers nothing. Once unit 2 is
  itself the first synchronous standby, it is marked completed.
\<close>

theorem pebble_ready_sync_standby_gate_witness:
  "(has_peer_relation (cluster3\<lparr>unit_name := ''postgresql-k8s/2''\<rparr>)
      \<and> unit_data (cluster3\<lparr>unit_name := ''postgresql-k8s/2''\<rparr>) ''state'' = Some ''upgrading''
      \<and> member_started (cluster3\<lparr>unit_name := ''postgresql-k8s/2''\<rparr>))
   \<and> (\<exists>s'. postgresql_on_pebble_ready (cluster3\<lparr>unit_name := ''postgresql-k8s/2''\<rparr>)
           = Returned s'
         \<and> deferred s' \<and> app_data s' = [''min-ordinal-sync-standbys'' \<mapsto> ''2''])
   \<and> unit_data (state_of (postgresql_on_pebble_ready
        (cluster3\<lparr>unit_name := ''postgresql-k8s/2''\<rparr>))) ''state'' = Some ''upgrading''
   \<and> (\<exists>s'. postgresql_on_pebble_ready
              (cluster3\<lparr>unit_name := ''postgresql-k8s/2'', api_get_fails := True\<rparr>)
           = Raised ApiError s'
         \<and> \<not> deferred s' \<and> app_data s' = Map.empty)
   \<and> (\<exists>s'. postgresql_on_pebble_ready (cluster3\<lparr>unit_name := ''postgresql-k8s/2'',
            sync_standby_names := [''postgresql-k8s/2'']\<rparr>) = Returned s'
         \<and> unit_data s' ''state'' = Some ''completed'' \<and> \<not> deferred s'
         \<and> app_data s' = Map.empty)"
proof -
  let ?wait = "cluster3\<lparr>unit_name := ''postgresql-k8s/2''\<rparr>"
  let ?down = "cluster3\<lparr>unit_name := ''postgresql-k8s/2'', api_get_fails := True\<rparr>"
  let ?ready = "cluster3\<lparr>unit_name := ''postgresql-k8s/2'',
                  sync_standby_names := [''postgresql-k8s/2'']\<rparr>"
  have wait: "has_peer_relation ?wait" "unit_data ?wait ''state'' = Some ''upgrading''"
    "member_started ?wait"
    by (simp_all add: cluster3_def)
  have down: "has_peer_relation ?down" "unit_data ?down ''state'' = Some ''upgrading''"
    "member_started ?down"
    by (simp_all add: cluster3_def)
  have ready: "has_peer_relation ?ready" "unit_data ?ready ''state'' = Some ''upgrading''"
    "member_started ?ready"
    by (simp_all add: cluster3_def)
  show ?thesis
    using pebble_ready_sync_standby_gate [OF wait] pebble_ready_sync_standby_gate [OF down]
      pebble_ready_sync_standby_gate [OF ready]
    by (simp add: cluster3_def unit_zero_name_def last_unit_name_def str_int_small)
qed

text \<open>
  C4 as stated fails. Unit 2, leader of the three-unit cluster, has a peer relation, the
  state "upgrading" and a started member; it is not unit 0, the primary is unit 1, and the
  first synchronous standby is unit 0. All conditions of the claim hold, yet with the
  orchestrator read failing the handler raises ApiError and the event is not deferred.
\<close>

theorem pebble_ready_gate_api_error_counterexample:
  "has_peer_relation (cluster3\<lparr>unit_name := ''postgresql-k8s/2'', api_get_fails := True\<rparr>)
   \<and> unit_data (cluster3\<lparr>unit_name := ''postgresql-k8s/2'', api_get_fails := True\<rparr>) ''state''
       = Some ''upgrading''
   \<and> member_started (cluster3\<lparr>unit_name := ''postgresql-k8s/2'', api_get_fails := True\<rparr>)
   \<and> unit_name (cluster3\<lparr>unit_name := ''postgresql-k8s/2'', api_get_fails := True\<rparr>)
       \<noteq> unit_zero_name (cluster3\<lparr>unit_name := ''postgresql-k8s/2'', api_get_fails := True\<rparr>)
   \<and> primary (cluster3\<lparr>unit_name := ''postgresql-k8s/2'', api_get_fails := True\<rparr>)
       \<noteq> unit_zero_name (cluster3\<lparr>unit_name := ''postgresql-k8s/2'', api_get_fails := True\<rparr>)
   \<and> sync_standby_names (cluster3\<lparr>unit_name := ''postgresql-k8s/2'', api_get_fails := True\<rparr>)
       = [''postgresql-k8s/0'']
   \<and> raised (postgresql_on_pebble_ready
        (cluster3\<lparr>unit_name := ''postgresql-k8s/2'', api_get_fails := True\<rparr>)) = Some ApiError
   \<and> \<not> deferred (state_of (postgresql_on_pebble_ready
        (cluster3\<lparr>unit_name := ''postgresql-k8s/2'', api_get_fails := True\<rparr>)))"
  by (simp add: postgresql_on_pebble_ready_def set_min_ordinal_sync_standbys_def
      get_rolling_update_partition_def unit_zero_name_def cluster3_def logger_def Let_def)

subsection \<open>C5: when MinOrdinalSyncStandbys is written\<close>

text \<open>
  C5, as amended. \<^verbatim>\<open>_set_min_ordinal_sync_standbys\<close> changes nothing and returns unless the
  cluster is initialised, the caller is the leader, more than two units are planned and the
  primary is not unit 0; in particular it changes nothing for a caller that is not the
  leader. When the four conditions hold, what happens depends on the orchestrator read: if
  it succeeds (and there is a peer relation to write to, which both callers have checked),
  the only change is that the hint is set to the current partition, rendered with
  \<^verbatim>\<open>str\<close>; if it raises ApiError, nothing is written and the error is raised from the
  unchanged state. So the application data bag changes only if the four conditions hold and
  the read succeeds.
\<close>

theorem set_min_ordinal_sync_standbys_cases:
  "(\<not> (is_cluster_initialised s \<and> is_leader s \<and> 2 < planned_units s
        \<and> primary s \<noteq> unit_zero_name s) \<longrightarrow>
      set_min_ordinal_sync_standbys s = Returned s)
   \<and> (is_cluster_initialised s \<and> is_leader s \<and> 2 < planned_units s
        \<and> primary s \<noteq> unit_zero_name s \<and> \<not> api_get_fails s \<and> has_peer_relation s \<longrightarrow>
      set_min_ordinal_sync_standbys s =
        Returned (s\<lparr>app_data := (app_data s)
          (''min-ordinal-sync-standbys'' \<mapsto> str_int (rolling_update_partition s))\<rparr>))
   \<and> (is_cluster_initialised s \<and> is_leader s \<and> 2 < planned_units s
        \<and> primary s \<noteq> unit_zero_name s \<and> api_get_fails s \<longrightarrow>
      set_min_ordinal_sync_standbys s = Raised ApiError s)
   \<and> (app_data (state_of (set_min_ordinal_sync_standbys s)) \<noteq> app_data s \<longrightarrow>
        is_cluster_initialised s \<and> is_leader s \<and> 2 < planned_units s
        \<and> primary s \<noteq> unit_zero_name s \<and> \<not> api_get_fails s)"
proof (cases "is_cluster_initialised s \<and> is_leader s \<and> 2 < planned_units s
       \<and> primary s \<noteq> unit_zero_name s")
  case False
  then have "set_min_ordinal_sync_standbys s = Returned s"
    by (auto simp: set_min_ordinal_sync_standbys_def unit_zero_name_def)
  with False show ?thesis by auto
next
  case conds: True
  then have primary: "primary s \<noteq> app_name s @ ''/0''" by (simp add: unit_zero_name_def)
  show ?thesis
  proof (cases "api_get_fails s")
    case True
    with conds primary
    have "set_min_ordinal_sync_standbys s = Raised ApiError s"
      by (simp add: set_min_ordinal_sync_standbys_def get_rolling_update_partition_def)
    with conds True show ?thesis by simp
  next
    case False
    with conds primary
    show ?thesis
      by (cases "has_peer_relation s")
        (simp_all add: set_min_ordinal_sync_standbys_def get_rolling_update_partition_def)
  qed
qed

text \<open>
  The leader of the three-unit cluster, whose primary is unit 1, writes the hint "2"; with
  the orchestrator read failing it raises ApiError and writes nothing; the same unit
  without leadership writes nothing and returns.
\<close>

theorem set_min_ordinal_sync_standbys_cases_witness:
  "(is_cluster_initialised cluster3 \<and> is_leader cluster3 \<and> 2 < planned_units cluster3
      \<and> primary cluster3 \<noteq> unit_zero_name cluster3 \<and> \<not> api_get_fails cluster3
      \<and> has_peer_relation cluster3)
   \<and> app_data (state_of (set_min_ordinal_sync_standbys cluster3)) ''min-ordinal-sync-standbys''
       = Some ''2''
   \<and> app_data (state_of (set_min_ordinal_sync_standbys cluster3)) \<noteq> app_data cluster3
   \<and> set_min_ordinal_sync_standbys (cluster3\<lparr>api_get_fails := True\<rparr>)
       = Raised ApiError (cluster3\<lparr>api_get_fails := True\<rparr>)
   \<and> set_min_ordinal_sync_standbys (cluster3\<lparr>is_leader := False\<rparr>)
       = Returned (cluster3\<lparr>is_leader := False\<rparr>)"
proof -
  have changed: "app_data (state_of (set_min_ordinal_sync_standbys cluster3))
      ''min-ordinal-sync-standbys'' = Some ''2''"
    using set_min_ordinal_sync_standbys_cases [of cluster3]
    by (simp add: cluster3_def unit_zero_name_def str_int_small)
  have "app_data cluster3 ''min-ordinal-sync-standbys'' = None"
    by (simp add: cluster3_def)
  with changed have "app_data (state_of (set_min_ordinal_sync_standbys cluster3))
      \<noteq> app_data cluster3"
    by (metis option.distinct(1))
  with changed show ?thesis
    using set_min_ordinal_sync_standbys_cases [of "cluster3\<lparr>is_leader := False\<rparr>"]
      set_min_ordinal_sync_standbys_cases [of "cluster3\<lparr>api_get_fails := True\<rparr>"]
    by (simp add: cluster3_def unit_zero_name_def)
qed

text \<open>
  C5 as stated fails. On the leader of the initialised three-unit cluster with primary
  unit 1 all four conditions hold, yet with the orchestrator read failing the helper raises
  ApiError and the hint is not written.
\<close>

theorem set_min_ordinal_read_failure_counterexample:
  "is_cluster_initialised (cluster3\<lparr>api_get_fails := True\<rparr>)
   \<and> is_leader (cluster3\<lparr>api_get_fails := True\<rparr>)
   \<and> 2 < planned_units (cluster3\<lparr>api_get_fails := True\<rparr>)
   \<and> primary (cluster3\<lparr>api_get_fails := True\<rparr>) \<noteq> unit_zero_name (cluster3\<lparr>api_get_fails := True\<rparr>)
   \<and> raised (set_min_ordinal_sync_standbys (cluster3\<lparr>api_get_fails := True\<rparr>)) = Some ApiError
   \<and> app_data (state_of (set_min_ordinal_sync_standbys (cluster3\<lparr>api_get_fails := True\<rparr>)))
        ''min-ordinal-sync-standbys'' = None"
  by (simp add: set_min_ordinal_sync_standbys_def get_rolling_update_partition_def
      unit_zero_name_def cluster3_def)

subsection \<open>C6: when the pre-upgrade check switches over\<close>

text \<open>
  C6. \<^verbatim>\<open>pre_upgrade_check\<close> requests at most one switchover, and exactly in these cases
  (the cluster being initialised, without which nothing is attempted at all): the primary
  is not unit 0, the synchronous-standby list is not empty, and either unit 0 is in the
  list, and then the request names unit 0, or unit 0 is not in the list and the primary is
  the highest-ordinal unit, and then the request names no target. When the primary is
  already unit 0, and when the primary is a middle unit (not unit 0, not the highest
  ordinal, with a non-empty list that does not hold unit 0), no switchover is requested and
  the initial partition \<^verbatim>\<open>planned_units - 1\<close> is written; the write is all that can fail.
\<close>

theorem pre_upgrade_check_switchover:
  "switchovers (state_of (pre_upgrade_check s)) = switchovers s @
     (if is_cluster_initialised s \<and> primary s \<noteq> unit_zero_name s
         \<and> sync_standby_names s \<noteq> [] then
        (if unit_zero_name s \<in> set (sync_standby_names s) then [Some (unit_zero_name s)]
         else if primary s = last_unit_name s then [None]
         else [])
      else [])
   \<and> (switchovers (state_of (pre_upgrade_check s)) \<noteq> switchovers s \<longrightarrow>
        primary s \<noteq> unit_zero_name s \<and> sync_standby_names s \<noteq> []
        \<and> (unit_zero_name s \<in> set (sync_standby_names s) \<or> primary s = last_unit_name s))
   \<and> (is_cluster_initialised s \<and>
        (primary s = unit_zero_name s
         \<or> (sync_standby_names s \<noteq> [] \<and> unit_zero_name s \<notin> set (sync_standby_names s)
             \<and> primary s \<noteq> last_unit_name s)) \<longrightarrow>
        switchovers (state_of (pre_upgrade_check s)) = switchovers s
        \<and> (if api_patch_fails s then raised (pre_upgrade_check s) = Some ApiError
            else raised (pre_upgrade_check s) = None
              \<and> rolling_update_partition (state_of (pre_upgrade_check s)) = planned_units s - 1))"
  by (auto simp: pre_upgrade_check_def switchover_then_set_first_def switchover_def
      unit_zero_name_def last_unit_name_def partition_defs Let_def split: option.splits)

text \<open>
  In the three-unit cluster: with primary unit 1 and unit 0 a synchronous standby, the one
  request names unit 0; with primary unit 2 and unit 1 the synchronous standby, the one
  request names no target; with primary unit 0, and with primary unit 1 and unit 2 the
  synchronous standby, nothing is requested and the partition is set to 2.
\<close>

theorem pre_upgrade_check_switchover_witness:
  "switchovers (state_of (pre_upgrade_check cluster3)) = [Some ''postgresql-k8s/0'']
   \<and> switchovers (state_of (pre_upgrade_check (cluster3\<lparr>primary := ''postgresql-k8s/2'',
         sync_standby_names := [''postgresql-k8s/1'']\<rparr>))) = [None]
   \<and> switchovers (state_of (pre_upgrade_check
         (cluster3\<lparr>primary := ''postgresql-k8s/0'', rolling_update_partition := 0\<rparr>))) = []
   \<and> rolling_update_partition (state_of (pre_upgrade_check
         (cluster3\<lparr>primary := ''postgresql-k8s/0'', rolling_update_partition := 0\<rparr>))) = 2
   \<and> switchovers (state_of (pre_upgrade_check
         (cluster3\<lparr>sync_standby_names := [''postgresql-k8s/2''],
            rolling_update_partition := 0\<rparr>))) = []
   \<and> rolling_update_partition (state_of (pre_upgrade_check
         (cluster3\<lparr>sync_standby_names := [''postgresql-k8s/2''],
            rolling_update_partition := 0\<rparr>))) = 2"
  using pre_upgrade_check_switchover [of cluster3]
    pre_upgrade_check_switchover [of "cluster3\<lparr>primary := ''postgresql-k8s/2'',
         sync_standby_names := [''postgresql-k8s/1'']\<rparr>"]
    pre_upgrade_check_switchover
      [of "cluster3\<lparr>primary := ''postgresql-k8s/0'', rolling_update_partition := 0\<rparr>"]
    pre_upgrade_check_switchover
      [of "cluster3\<lparr>sync_standby_names := [''postgresql-k8s/2''],
            rolling_update_partition := 0\<rparr>"]
  by (simp add: cluster3_def unit_zero_name_def last_unit_name_def str_int_small)

subsection \<open>C7: no synchronous standby\<close>

text \<open>
  C7. When the primary is not unit 0 and the list of synchronous standbys is empty,
  \<^verbatim>\<open>pre_upgrade_check\<close> raises ClusterNotReadyError and leaves the whole state, so also the
  partition, as it was. On an initialised cluster, the only one on which the replication
  manager is asked at all, the error carries the reason "invalid number of sync nodes".
\<close>

theorem pre_upgrade_check_no_sync_nodes:
  assumes "primary s \<noteq> unit_zero_name s" and "sync_standby_names s = []"
  shows "(\<exists>reason hint. pre_upgrade_check s = Raised (ClusterNotReadyError reason hint) s)
     \<and> (is_cluster_initialised s \<longrightarrow>
          pre_upgrade_check s =
            Raised (ClusterNotReadyError ''invalid number of sync nodes'' ''no action!'') s)
     \<and> rolling_update_partition (state_of (pre_upgrade_check s)) = rolling_update_partition s"
proof (cases "is_cluster_initialised s")
  case False
  then show ?thesis by (simp add: pre_upgrade_check_def Let_def)
next
  case True
  from assms(1) have "primary s \<noteq> app_name s @ ''/0''" by (simp add: unit_zero_name_def)
  with True assms(2) show ?thesis by (simp add: pre_upgrade_check_def)
qed

theorem pre_upgrade_check_no_sync_nodes_witness:
  "primary (cluster3\<lparr>sync_standby_names := []\<rparr>)
      \<noteq> unit_zero_name (cluster3\<lparr>sync_standby_names := []\<rparr>)
   \<and> sync_standby_names (cluster3\<lparr>sync_standby_names := []\<rparr>) = []
   \<and> pre_upgrade_check (cluster3\<lparr>sync_standby_names := []\<rparr>)
       = Raised (ClusterNotReadyError ''invalid number of sync nodes'' ''no action!'')
           (cluster3\<lparr>sync_standby_names := []\<rparr>)
   \<and> rolling_update_partition (state_of (pre_upgrade_check
        (cluster3\<lparr>sync_standby_names := []\<rparr>))) = 2"
proof -
  let ?s = "cluster3\<lparr>sync_standby_names := []\<rparr>"
  have primary: "primary ?s \<noteq> unit_zero_name ?s"
    by (simp add: cluster3_def unit_zero_name_def)
  have none: "sync_standby_names ?s = []" by simp
  have "is_cluster_initialised ?s" "rolling_update_partition ?s = 2"
    by (simp_all add: cluster3_def)
  with pre_upgrade_check_no_sync_nodes [OF primary none] primary none
  show ?thesis by simp
qed

subsection \<open>C8: orchestrator failure after a unit has finished\<close>

text \<open>
  C8. When the finishing unit is not the exempted unit and the orchestrator read raises
  ApiError, or the read gives a partition \<open>P\<close> with \<open>P - 1 \<ge> 0\<close> and the write raises
  ApiError, \<^verbatim>\<open>_on_upgrade_finished\<close> returns normally: the error does not reach the
  caller. The unit's state is then "failed", the two lines of rollback instructions are the
  last entries of the log, and the partition is unchanged.
\<close>

theorem upgrade_finished_api_error:
  assumes "unit_name s \<noteq> last_unit_name s"
    and "api_get_fails s \<or> (0 \<le> rolling_update_partition s - 1 \<and> api_patch_fails s)"
  shows "\<exists>s' earlier. on_upgrade_finished s = Returned s'
     \<and> unit_data s' ''state'' = Some ''failed''
     \<and> log_records s' = earlier @
          [(INFO, ''Run `juju refresh --revision <previous-revision> postgresql-k8s` to rollback''),
           (INFO, ''and `juju run-action postgresql-k8s/leader resume-upgrade` to finish the rollback'')]
     \<and> rolling_update_partition s' = rolling_update_partition s"
proof -
  let ?s2 = "logger DEBUG ''Set rolling update partition to next unit''
               (logger ERROR (''finished for '' @ unit_name s) s)"
  have caught: "\<And>t. \<exists>s' earlier. finished_except ApiError t = Returned s'
     \<and> unit_data s' ''state'' = Some ''failed''
     \<and> log_records s' = earlier @
          [(INFO, ''Run `juju refresh --revision <previous-revision> postgresql-k8s` to rollback''),
           (INFO, ''and `juju run-action postgresql-k8s/leader resume-upgrade` to finish the rollback'')]
     \<and> rolling_update_partition s' = rolling_update_partition t"
    by (simp add: finished_except_def log_rollback_instructions_def set_unit_failed_def
        logger_def)
  from assms(2) consider (get_failed) "api_get_fails s"
    | (patch_failed) "\<not> api_get_fails s" "0 \<le> rolling_update_partition s - 1" "api_patch_fails s"
    by blast
  then show ?thesis
  proof cases
    case get_failed
    with assms(1) have "on_upgrade_finished s = finished_except ApiError ?s2"
      by (simp add: on_upgrade_finished_def last_unit_name_def get_rolling_update_partition_def
          logger_def Let_def)
    with caught [of ?s2] show ?thesis by (simp add: logger_def)
  next
    case patch_failed
    let ?s3 = "(logger INFO (''partition: '' @ str_int (rolling_update_partition s - 1)) ?s2)
                 \<lparr>patch_requests := patch_requests s @ [rolling_update_partition s - 1]\<rparr>"
    from patch_failed assms(1) have "on_upgrade_finished s = finished_except ApiError ?s3"
      by (simp add: on_upgrade_finished_def last_unit_name_def partition_defs Let_def)
    with caught [of ?s3] show ?thesis by (simp add: logger_def)
  qed
qed

text \<open>
  Unit 1 of the three-unit cluster finishing while the orchestrator read fails, and while
  only the write fails.
\<close>

theorem upgrade_finished_api_error_witness:
  "unit_name (cluster3\<lparr>api_get_fails := True\<rparr>) \<noteq> last_unit_name (cluster3\<lparr>api_get_fails := True\<rparr>)
   \<and> api_get_fails (cluster3\<lparr>api_get_fails := True\<rparr>)
   \<and> (\<exists>s'. on_upgrade_finished (cluster3\<lparr>api_get_fails := True\<rparr>) = Returned s'
         \<and> unit_data s' ''state'' = Some ''failed'' \<and> rolling_update_partition s' = 2)
   \<and> (\<exists>s'. on_upgrade_finished (cluster3\<lparr>api_patch_fails := True\<rparr>) = Returned s'
         \<and> unit_data s' ''state'' = Some ''failed'' \<and> rolling_update_partition s' = 2)"
proof -
  let ?r = "cluster3\<lparr>api_get_fails := True\<rparr>"
  let ?w = "cluster3\<lparr>api_patch_fails := True\<rparr>"
  have r: "unit_name ?r \<noteq> last_unit_name ?r"
    "api_get_fails ?r \<or> (0 \<le> rolling_update_partition ?r - 1 \<and> api_patch_fails ?r)"
    by (simp_all add: cluster3_def last_unit_name_def str_int_small)
  have w: "unit_name ?w \<noteq> last_unit_name ?w"
    "api_get_fails ?w \<or> (0 \<le> rolling_update_partition ?w - 1 \<and> api_patch_fails ?w)"
    by (simp_all add: cluster3_def last_unit_name_def str_int_small)
  have two: "rolling_update_partition ?r = 2" "rolling_update_partition ?w = 2"
    by (simp_all add: cluster3_def)
  from upgrade_finished_api_error [OF r] two(1)
  have "\<exists>s'. on_upgrade_finished ?r = Returned s'
         \<and> unit_data s' ''state'' = Some ''failed'' \<and> rolling_update_partition s' = 2"
    by auto
  moreover from upgrade_finished_api_error [OF w] two(2)
  have "\<exists>s'. on_upgrade_finished ?w = Returned s'
         \<and> unit_data s' ''state'' = Some ''failed'' \<and> rolling_update_partition s' = 2"
    by auto
  moreover have "api_get_fails ?r" by simp
  ultimately show ?thesis using r(1) by blast
qed

subsection \<open>C9: orchestrator failure while refreshing MinOrdinalSyncStandbys\<close>

lemma set_min_ordinal_sync_standbys_raises:
  assumes "is_leader s" and "is_cluster_initialised s" and "2 < planned_units s"
    and "primary s \<noteq> app_name s @ ''/0''" and "api_get_fails s"
  shows "set_min_ordinal_sync_standbys s = Raised ApiError s"
  using assms by (simp add: set_min_ordinal_sync_standbys_def get_rolling_update_partition_def)

text \<open>
  C9. On the leader of an initialised cluster with more than two planned units and a
  primary other than unit 0, an ApiError of the orchestrator read makes
  \<^verbatim>\<open>_set_min_ordinal_sync_standbys\<close> raise it, and the two handlers that call the helper let
  it through. \<^verbatim>\<open>_on_upgrade_changed\<close> (with a peer relation) raises ApiError from the state
  it started in: nothing is deferred and the configuration is not re-rendered.
  \<^verbatim>\<open>_postgresql_on_pebble_ready\<close>, on its path to the helper (state "upgrading", member
  started, unit not unit 0, a first synchronous standby that is another unit), raises
  ApiError with the event not deferred and both data bags unchanged.
\<close>

theorem min_ordinal_api_error_propagates:
  assumes "is_leader s" and "is_cluster_initialised s" and "2 < planned_units s"
    and "primary s \<noteq> unit_zero_name s" and "api_get_fails s" and "has_peer_relation s"
  shows "set_min_ordinal_sync_standbys s = Raised ApiError s
     \<and> on_upgrade_changed s = Raised ApiError s
     \<and> (unit_data s ''state'' = Some ''upgrading'' \<and> member_started s
          \<and> unit_name s \<noteq> unit_zero_name s
          \<and> 0 < length (sync_standby_names s) \<and> sync_standby_names s ! 0 \<noteq> unit_name s \<longrightarrow>
          (\<exists>s'. postgresql_on_pebble_ready s = Raised ApiError s'
             \<and> deferred s' = deferred s \<and> unit_data s' = unit_data s
             \<and> app_data s' = app_data s))"
proof -
  from assms(4) have primary: "primary s \<noteq> app_name s @ ''/0''"
    by (simp add: unit_zero_name_def)
  have helper: "set_min_ordinal_sync_standbys s = Raised ApiError s"
    using assms(1-3) primary assms(5) by (rule set_min_ordinal_sync_standbys_raises)
  with assms(6) have changed: "on_upgrade_changed s = Raised ApiError s"
    by (simp add: on_upgrade_changed_def)
  have ready: "\<exists>s'. postgresql_on_pebble_ready s = Raised ApiError s'
      \<and> deferred s' = deferred s \<and> unit_data s' = unit_data s \<and> app_data s' = app_data s"
    if path: "unit_data s ''state'' = Some ''upgrading''" "member_started s"
      "unit_name s \<noteq> unit_zero_name s"
      "0 < length (sync_standby_names s)" "sync_standby_names s ! 0 \<noteq> unit_name s"
  proof -
    let ?s2 = "logger ERROR (''sync_standby_names: '' @ str_list (sync_standby_names s))
                 (logger ERROR (''primary_unit_name: '' @ primary s) s)"
    have "set_min_ordinal_sync_standbys ?s2 = Raised ApiError ?s2"
      using assms(1-3) primary assms(5)
      by (intro set_min_ordinal_sync_standbys_raises) (simp_all add: logger_def)
    with path assms(6) primary
    have "postgresql_on_pebble_ready s = Raised ApiError ?s2"
      by (simp add: postgresql_on_pebble_ready_def unit_zero_name_def logger_def Let_def)
    then show ?thesis by (simp add: logger_def)
  qed
  from helper changed ready show ?thesis by blast
qed

text \<open>
  Unit 2 as leader of the three-unit cluster, primary unit 1, first synchronous standby
  unit 0, orchestrator read failing: both handlers raise ApiError.
\<close>

theorem min_ordinal_api_error_propagates_witness:
  "on_upgrade_changed (cluster3\<lparr>unit_name := ''postgresql-k8s/2'', api_get_fails := True\<rparr>)
     = Raised ApiError (cluster3\<lparr>unit_name := ''postgresql-k8s/2'', api_get_fails := True\<rparr>)
   \<and> (\<exists>s'. postgresql_on_pebble_ready
              (cluster3\<lparr>unit_name := ''postgresql-k8s/2'', api_get_fails := True\<rparr>)
            = Raised ApiError s' \<and> \<not> deferred s'
         \<and> unit_data s' ''state'' = Some ''upgrading'')"
proof -
  let ?s = "cluster3\<lparr>unit_name := ''postgresql-k8s/2'', api_get_fails := True\<rparr>"
  have hyps: "is_leader ?s" "is_cluster_initialised ?s" "2 < planned_units ?s"
    "primary ?s \<noteq> unit_zero_name ?s" "api_get_fails ?s" "has_peer_relation ?s"
    by (simp_all add: cluster3_def unit_zero_name_def)
  have path: "unit_data ?s ''state'' = Some ''upgrading''" "member_started ?s"
    "unit_name ?s \<noteq> unit_zero_name ?s" "0 < length (sync_standby_names ?s)"
    "sync_standby_names ?s ! 0 \<noteq> unit_name ?s" "\<not> deferred ?s"
    by (simp_all add: cluster3_def unit_zero_name_def)
  from min_ordinal_api_error_propagates [OF hyps] path show ?thesis by auto
qed

subsection \<open>C10: the workload-ready handler and the partition\<close>

text \<open>
  C10, as amended. In four of its five branches \<^verbatim>\<open>_postgresql_on_pebble_ready\<close> neither
  changes the partition nor calls \<^verbatim>\<open>client.patch\<close>, whether it returns or raises: deferring
  for want of a peer relation, doing nothing because the state is not "upgrading", deferring
  because Patroni has not started, and refreshing the hint and deferring (the refresh only
  reads the partition). In the fifth branch, marking the unit completed, the
  upgrade-finished handling that completion fires advances the partition as
  \<^verbatim>\<open>_on_upgrade_finished\<close> does: for a unit other than \<^verbatim>\<open>app/(planned_units - 1)\<close> whose
  orchestrator read succeeds with \<open>P - 1 \<ge> 0\<close>, \<^verbatim>\<open>client.patch\<close> is called once with
  \<open>P - 1\<close>, and the partition becomes \<open>P - 1\<close> if that call succeeds; otherwise nothing is
  sent and the partition stays.
\<close>

theorem pebble_ready_partition_writes:
  "(\<not> (has_peer_relation s \<and> unit_data s ''state'' = Some ''upgrading'' \<and> member_started s
        \<and> \<not> (unit_name s \<noteq> unit_zero_name s \<and> primary s \<noteq> unit_zero_name s
              \<and> 0 < length (sync_standby_names s)
              \<and> sync_standby_names s ! 0 \<noteq> unit_name s)) \<longrightarrow>
      rolling_update_partition (state_of (postgresql_on_pebble_ready s))
        = rolling_update_partition s
      \<and> patch_requests (state_of (postgresql_on_pebble_ready s)) = patch_requests s)
   \<and> (has_peer_relation s \<and> unit_data s ''state'' = Some ''upgrading'' \<and> member_started s
        \<and> \<not> (unit_name s \<noteq> unit_zero_name s \<and> primary s \<noteq> unit_zero_name s
              \<and> 0 < length (sync_standby_names s)
              \<and> sync_standby_names s ! 0 \<noteq> unit_name s) \<longrightarrow>
      patch_requests (state_of (postgresql_on_pebble_ready s)) = patch_requests s @
         (if unit_name s \<noteq> last_unit_name s \<and> \<not> api_get_fails s
             \<and> 0 \<le> rolling_update_partition s - 1
          then [rolling_update_partition s - 1] else [])
      \<and> rolling_update_partition (state_of (postgresql_on_pebble_ready s)) =
         (if unit_name s \<noteq> last_unit_name s \<and> \<not> api_get_fails s
             \<and> 0 \<le> rolling_update_partition s - 1 \<and> \<not> api_patch_fails s
          then rolling_update_partition s - 1 else rolling_update_partition s))"
proof (cases "has_peer_relation s")
  case False
  then show ?thesis
    by (simp add: postgresql_on_pebble_ready_def event_defer_def logger_def)
next
  case peer: True
  show ?thesis
  proof (cases "unit_data s ''state'' = Some ''upgrading''")
    case False
    with peer show ?thesis by (simp add: postgresql_on_pebble_ready_def)
  next
    case upgrading: True
    show ?thesis
    proof (cases "member_started s")
      case False
      with peer upgrading show ?thesis
        by (simp add: postgresql_on_pebble_ready_def event_defer_def logger_def)
    next
      case started: True
      let ?s2 = "logger ERROR (''sync_standby_names: '' @ str_list (sync_standby_names s))
                   (logger ERROR (''primary_unit_name: '' @ primary s) s)"
      show ?thesis
      proof (cases "unit_name s \<noteq> unit_zero_name s \<and> primary s \<noteq> unit_zero_name s
          \<and> 0 < length (sync_standby_names s) \<and> sync_standby_names s ! 0 \<noteq> unit_name s")
        case True
        note gate = pebble_ready_gate_branch [OF peer upgrading started True]
        have "rolling_update_partition (state_of (set_min_ordinal_sync_standbys ?s2))
            = rolling_update_partition ?s2"
          and "patch_requests (state_of (set_min_ordinal_sync_standbys ?s2))
            = patch_requests ?s2"
          by (rule set_min_ordinal_sync_standbys_frame)+
        with gate
        have "rolling_update_partition (state_of (postgresql_on_pebble_ready s))
              = rolling_update_partition s
            \<and> patch_requests (state_of (postgresql_on_pebble_ready s)) = patch_requests s"
          by (cases "set_min_ordinal_sync_standbys ?s2")
            (simp_all add: event_defer_def logger_def)
        with True show ?thesis by simp
      next
        case False
        note run = pebble_ready_completed_branch [OF peer upgrading started False]
        from set_unit_completed_effect [of ?s2] run
        have "patch_requests (state_of (postgresql_on_pebble_ready s)) = patch_requests s @
             (if unit_name s \<noteq> last_unit_name s \<and> \<not> api_get_fails s
                 \<and> 0 \<le> rolling_update_partition s - 1
              then [rolling_update_partition s - 1] else [])
          \<and> rolling_update_partition (state_of (postgresql_on_pebble_ready s)) =
             (if unit_name s \<noteq> last_unit_name s \<and> \<not> api_get_fails s
                 \<and> 0 \<le> rolling_update_partition s - 1 \<and> \<not> api_patch_fails s
              then rolling_update_partition s - 1 else rolling_update_partition s)"
          by (auto simp: logger_reads last_unit_name_def cong: if_cong)
        with peer upgrading started False show ?thesis by simp
      qed
    qed
  qed
qed

text \<open>
  In the three-unit cluster: unit 2 deferred behind unit 0 sends nothing and leaves the
  partition at 2; unit 1, completing at partition 1 with unit 0 as primary, sends one
  request for partition 0, which is then the partition.
\<close>

theorem pebble_ready_partition_writes_witness:
  "rolling_update_partition (state_of (postgresql_on_pebble_ready
      (cluster3\<lparr>unit_name := ''postgresql-k8s/2''\<rparr>))) = 2
   \<and> patch_requests (state_of (postgresql_on_pebble_ready
      (cluster3\<lparr>unit_name := ''postgresql-k8s/2''\<rparr>))) = []
   \<and> rolling_update_partition (state_of (postgresql_on_pebble_ready
      (cluster3\<lparr>primary := ''postgresql-k8s/0'',
         sync_standby_names := [''postgresql-k8s/1''], rolling_update_partition := 1\<rparr>))) = 0
   \<and> patch_requests (state_of (postgresql_on_pebble_ready
      (cluster3\<lparr>primary := ''postgresql-k8s/0'',
         sync_standby_names := [''postgresql-k8s/1''], rolling_update_partition := 1\<rparr>))) = [0]"
  using pebble_ready_partition_writes [of "cluster3\<lparr>unit_name := ''postgresql-k8s/2''\<rparr>"]
    pebble_ready_partition_writes
      [of "cluster3\<lparr>primary := ''postgresql-k8s/0'',
         sync_standby_names := [''postgresql-k8s/1''], rolling_update_partition := 1\<rparr>"]
  by (simp add: cluster3_def unit_zero_name_def last_unit_name_def str_int_small)

text \<open>
  C10 as stated fails in the mark-completed branch. Unit 1 of the three-unit cluster, state
  "upgrading", member started, primary unit 0, partition 1: the handler marks the unit
  completed, and when it is done \<^verbatim>\<open>client.patch\<close> has been called with 0 and the partition
  is 0.
\<close>

theorem pebble_ready_completed_advances_counterexample:
  "has_peer_relation (cluster3\<lparr>primary := ''postgresql-k8s/0'',
       sync_standby_names := [''postgresql-k8s/1''], rolling_update_partition := 1\<rparr>)
   \<and> unit_data (cluster3\<lparr>primary := ''postgresql-k8s/0'',
       sync_standby_names := [''postgresql-k8s/1''], rolling_update_partition := 1\<rparr>) ''state''
       = Some ''upgrading''
   \<and> member_started (cluster3\<lparr>primary := ''postgresql-k8s/0'',
       sync_standby_names := [''postgresql-k8s/1''], rolling_update_partition := 1\<rparr>)
   \<and> rolling_update_partition (cluster3\<lparr>primary := ''postgresql-k8s/0'',
       sync_standby_names := [''postgresql-k8s/1''], rolling_update_partition := 1\<rparr>) = 1
   \<and> raised (postgresql_on_pebble_ready (cluster3\<lparr>primary := ''postgresql-k8s/0'',
       sync_standby_names := [''postgresql-k8s/1''], rolling_update_partition := 1\<rparr>)) = None
   \<and> unit_data (state_of (postgresql_on_pebble_ready (cluster3\<lparr>primary := ''postgresql-k8s/0'',
       sync_standby_names := [''postgresql-k8s/1''], rolling_update_partition := 1\<rparr>))) ''state''
       = Some ''completed''
   \<and> patch_requests (state_of (postgresql_on_pebble_ready (cluster3\<lparr>primary := ''postgresql-k8s/0'',
       sync_standby_names := [''postgresql-k8s/1''], rolling_update_partition := 1\<rparr>))) = [0]
   \<and> rolling_update_partition (state_of (postgresql_on_pebble_ready
       (cluster3\<lparr>primary := ''postgresql-k8s/0'',
          sync_standby_names := [''postgresql-k8s/1''], rolling_update_partition := 1\<rparr>))) = 0"
  by (simp add: postgresql_on_pebble_ready_def set_unit_completed_def on_upgrade_finished_def
      partition_defs cluster3_def str_int_small Let_def)

end
